theory Spec2Isabelle
  imports Main "HOL-Library.Word"
begin

section \<open>Python values shared by the two scripts\<close>

text \<open>
  A Python \<open>str\<close> is a sequence of Unicode code points, so it is a list of naturals here
  (an Isabelle \<open>char\<close> is a byte and cannot hold \<open>U+0E01\<close>). Bytes are 8-bit words.
  Identifiers, encoding names and the prompt are ASCII and stay Isabelle strings.
\<close>

type_synonym codepoint = nat
type_synonym pystr = "codepoint list"
type_synonym byte = "8 word"

datatype error =
    LookupError string
  | UnicodeEncodeError codepoint
  | TypeError
  | Raised string

text \<open>
  A statement of a script either completes with a value or raises; either way the state it
  has reached is kept, since the effects before the raise have happened.
\<close>

type_synonym ('s, 'a) prog = "'s \<Rightarrow> (error + 'a) \<times> 's"

definition done_with :: "'a \<Rightarrow> ('s, 'a) prog" where
  "done_with x s = (Inr x, s)"

definition raise :: "error \<Rightarrow> ('s, 'a) prog" where
  "raise e s = (Inl e, s)"

definition and_then :: "('s, 'a) prog \<Rightarrow> ('a \<Rightarrow> ('s, 'b) prog) \<Rightarrow> ('s, 'b) prog" where
  "and_then m k s = (case m s of (Inl e, s') \<Rightarrow> (Inl e, s') | (Inr x, s') \<Rightarrow> k x s')"

text \<open>\<open>s * n\<close> on a Python string: \<open>n\<close> copies, none when \<open>n\<close> is not positive.\<close>

definition str_mul :: "pystr \<Rightarrow> int \<Rightarrow> pystr" where
  "str_mul s n = concat (replicate (nat n) s)"

section \<open>test-random-stuff.py: the strings\<close>

definition base :: pystr where
  "base = [0x0E01]"

definition side_wall :: pystr where
  "side_wall = str_mul [0x20DD] 5 @ str_mul [0x20DE] 5 @ str_mul [0x20DF] 5"

definition up_stack :: pystr where
  "up_stack = str_mul [0x0E47] 10 @ str_mul [0x0304, 0x0305, 0x030D, 0x0342, 0x035B, 0x0352] 3"

definition down_stack :: pystr where
  "down_stack = str_mul [0x0E38] 5 @ str_mul [0x0317, 0x0316, 0x0320, 0x0329, 0x032A, 0x0330] 2"

definition monster :: pystr where
  "monster = base @ side_wall @ up_stack @ down_stack"

subsection \<open>Unicode general categories of the blocks the script draws from\<close>




section \<open>The text stream behind \<open>sys.stdout\<close>\<close>

text \<open>
  \<open>sys.stdout\<close> is an \<open>io.TextIOWrapper\<close>: it holds an encoding, an error mode and a newline
  translation, encodes the text given to \<open>write\<close> and hands the bytes on. The encoding the
  platform chose is any of the constructors below; \<open>Charmap\<close> stands for every other
  single- or multi-byte code page, given by its table.
\<close>

datatype codec = Utf8 | Ascii | Latin1 | Charmap "codepoint \<Rightarrow> byte list option"

datatype errmode = Strict | Ignore | Replace

datatype lineend = LF | CR | CRLF

definition utf8_char :: "codepoint \<Rightarrow> byte list option" where
  "utf8_char c =
     (if c < 0x80 then Some [of_nat c]
      else if c < 0x800 then Some [of_nat (0xC0 + c div 0x40), of_nat (0x80 + c mod 0x40)]
      else if c < 0x10000 then
        (if 0xD800 \<le> c \<and> c < 0xE000 then None
         else Some [of_nat (0xE0 + c div 0x1000), of_nat (0x80 + c div 0x40 mod 0x40),
                    of_nat (0x80 + c mod 0x40)])
      else if c < 0x110000 then
        Some [of_nat (0xF0 + c div 0x40000), of_nat (0x80 + c div 0x1000 mod 0x40),
              of_nat (0x80 + c div 0x40 mod 0x40), of_nat (0x80 + c mod 0x40)]
      else None)"

fun encode_char :: "codec \<Rightarrow> codepoint \<Rightarrow> byte list option" where
  "encode_char Utf8 c = utf8_char c"
| "encode_char Ascii c = (if c < 0x80 then Some [of_nat c] else None)"
| "encode_char Latin1 c = (if c < 0x100 then Some [of_nat c] else None)"
| "encode_char (Charmap t) c = t c"

text \<open>
  \<open>str.encode(encoding, errors)\<close>: under \<open>strict\<close> the first code point without an
  encoding raises \<open>UnicodeEncodeError\<close>, under \<open>ignore\<close> it is dropped, under \<open>replace\<close>
  it becomes \<open>?\<close>.
\<close>

fun encode :: "codec \<Rightarrow> errmode \<Rightarrow> pystr \<Rightarrow> error + byte list" where
  "encode cd em [] = Inr []"
| "encode cd em (c # cs) =
     (case encode_char cd c of
        Some bs \<Rightarrow> (case encode cd em cs of Inl e \<Rightarrow> Inl e | Inr rest \<Rightarrow> Inr (bs @ rest))
      | None \<Rightarrow>
          (case em of
             Strict \<Rightarrow> Inl (UnicodeEncodeError c)
           | Ignore \<Rightarrow> encode cd em cs
           | Replace \<Rightarrow>
               (case encode cd em cs of Inl e \<Rightarrow> Inl e | Inr rest \<Rightarrow> Inr (0x3F # rest))))"

definition lookup_codec :: "string \<Rightarrow> codec option" where
  "lookup_codec name =
     (if name = ''utf-8'' \<or> name = ''utf8'' then Some Utf8
      else if name = ''ascii'' then Some Ascii
      else if name = ''latin-1'' \<or> name = ''latin1'' then Some Latin1
      else None)"

fun lineend_str :: "lineend \<Rightarrow> pystr" where
  "lineend_str LF = [0x0A]"
| "lineend_str CR = [0x0D]"
| "lineend_str CRLF = [0x0D, 0x0A]"

text \<open>
  The stream. \<open>writenl\<close> is what a written \<open>\n\<close> becomes (\<open>None\<close>: no translation, the
  POSIX setting; \<open>Some CRLF\<close> on Windows). \<open>flush_fault\<close> and \<open>write_fault\<close> are what the
  underlying binary stream raises when flushed and when given bytes (a closed descriptor, a
  broken pipe), if anything. \<open>written\<close> records the arguments of the \<open>write\<close> calls accepted
  so far, \<open>sink\<close> the bytes handed on.
\<close>

record text_io =
  encoding :: codec
  errors :: errmode
  writenl :: "lineend option"
  flush_fault :: "error option"
  write_fault :: "byte list \<Rightarrow> error option"
  written :: "pystr list"
  sink :: "byte list"

definition translate_newlines :: "lineend option \<Rightarrow> pystr \<Rightarrow> pystr" where
  "translate_newlines nl t =
     (case nl of
        None \<Rightarrow> t
      | Some le \<Rightarrow> concat (map (\<lambda>c. if c = 0x0A then lineend_str le else [c]) t))"

text \<open>
  \<open>TextIOWrapper.reconfigure(encoding=name)\<close>: flush what is pending, look the codec up,
  install it; \<open>errors\<close>, not given, becomes \<open>strict\<close>. The newline setting is kept.
\<close>

definition reconfigure :: "string \<Rightarrow> (text_io, unit) prog" where
  "reconfigure name f =
     (case flush_fault f of
        Some e \<Rightarrow> (Inl e, f)
      | None \<Rightarrow>
          (case lookup_codec name of
             None \<Rightarrow> (Inl (LookupError name), f)
           | Some cd \<Rightarrow> (Inr (), f\<lparr>encoding := cd, errors := Strict\<rparr>)))"

text \<open>\<open>TextIOWrapper.write(t)\<close>: translate newlines, encode, hand the bytes on.\<close>

definition write_text :: "pystr \<Rightarrow> (text_io, unit) prog" where
  "write_text t f =
     (case encode (encoding f) (errors f) (translate_newlines (writenl f) t) of
        Inl e \<Rightarrow> (Inl e, f)
      | Inr bs \<Rightarrow>
          (case write_fault f bs of
             Some e \<Rightarrow> (Inl e, f)
           | None \<Rightarrow> (Inr (), f\<lparr>written := written f @ [t], sink := sink f @ bs\<rparr>)))"

text \<open>
  \<open>print(s)\<close> with the defaults \<open>sep=' '\<close>, \<open>end='\n'\<close>, \<open>file=sys.stdout\<close>: one \<open>write\<close> of
  the object's text and one of \<open>end\<close>.
\<close>

definition print :: "pystr \<Rightarrow> (text_io, unit) prog" where
  "print s = and_then (write_text s) (\<lambda>_. write_text [0x0A])"

section \<open>The world outside the interpreter\<close>

datatype image = Image "byte list" string

record world =
  stdout :: text_io
  files :: "string \<rightharpoonup> byte list"
  api_calls :: "(string \<times> string) list"
  show_calls :: "image list"

text \<open>A statement on \<open>sys.stdout\<close> is a statement on the world that touches only that field.\<close>

definition on_stdout :: "(text_io, 'a) prog \<Rightarrow> (world, 'a) prog" where
  "on_stdout m w = (case m (stdout w) of (r, f) \<Rightarrow> (r, w\<lparr>stdout := f\<rparr>))"

section \<open>test-random-stuff.py: the script\<close>

text \<open>
  \<^verbatim>\<open>
  import sys
  sys.stdout.reconfigure(encoding="utf-8")
  ...
  monster = base + side_wall + up_stack + down_stack
  print(monster)
  \<close>
  \<open>sys\<close> is built into the interpreter; importing it cannot fail.
\<close>

definition test_random_stuff :: "(world, unit) prog" where
  "test_random_stuff =
     and_then (on_stdout (reconfigure ''utf-8'')) (\<lambda>_. on_stdout (print monster))"

text \<open>What a run starting in \<open>w\<close> adds to standard output, as text and as bytes.\<close>

definition printed :: "world \<Rightarrow> pystr list" where
  "printed w =
     drop (length (written (stdout w))) (written (stdout (snd (test_random_stuff w))))"

definition bytes_out :: "world \<Rightarrow> byte list" where
  "bytes_out w = drop (length (sink (stdout w))) (sink (stdout (snd (test_random_stuff w))))"

section \<open>testgeneration.py\<close>

text \<open>
  The script's counterpart is the \<open>google-genai\<close> package and the service behind it. A
  response part carries text, inline data, or neither; \<open>response.parts\<close> is a list of
  parts or \<open>None\<close>.
\<close>

record blob =
  mime_type :: string
  payload :: "byte list"

record part =
  part_text :: "pystr option"
  inline_data :: "blob option"

record response =
  parts :: "part list option"

datatype client = Client

text \<open>
  What the third-party code does is a parameter: for each operation the script invokes,
  the value it returns or the exception it raises.
\<close>

record env =
  import_module :: "string \<Rightarrow> error option"
  new_client :: "error + client"
  generate_content :: "client \<Rightarrow> string \<Rightarrow> string \<Rightarrow> error + response"
  as_image :: "part \<Rightarrow> error + image"
  show_image :: "image \<Rightarrow> error option"

definition lift_result :: "error + 'a \<Rightarrow> ('s, 'a) prog" where
  "lift_result r s = (r, s)"

definition lift_fault :: "error option \<Rightarrow> ('s, unit) prog" where
  "lift_fault r s = (case r of Some e \<Rightarrow> (Inl e, s) | None \<Rightarrow> (Inr (), s))"

text \<open>\<open>from pkg import name\<close>.\<close>

definition import_from :: "env \<Rightarrow> string \<Rightarrow> string \<Rightarrow> (world, unit) prog" where
  "import_from E pkg name = lift_fault (import_module E (pkg @ ''.'' @ name))"

text \<open>\<open>genai.Client()\<close>.\<close>

definition genai_Client :: "env \<Rightarrow> (world, client) prog" where
  "genai_Client E = lift_result (new_client E)"

text \<open>\<open>client.models.generate_content(model=m, contents=c)\<close>: the call is on record whether
  it returns or raises.\<close>

definition models_generate_content ::
  "env \<Rightarrow> client \<Rightarrow> string \<Rightarrow> string \<Rightarrow> (world, response) prog" where
  "models_generate_content E cl m c w =
     (generate_content E cl m c, w\<lparr>api_calls := api_calls w @ [(m, c)]\<rparr>)"

text \<open>Starting \<open>for part in response.parts\<close>: iterating \<open>None\<close> raises \<open>TypeError\<close>.\<close>

definition iterate :: "'a list option \<Rightarrow> ('s, 'a list) prog" where
  "iterate xs = (case xs of None \<Rightarrow> raise TypeError | Some ys \<Rightarrow> done_with ys)"

text \<open>\<open>image.show()\<close>: the call is on record whether it returns or raises.\<close>

definition image_show :: "env \<Rightarrow> image \<Rightarrow> (world, unit) prog" where
  "image_show E img w =
     (case show_image E img of
        Some e \<Rightarrow> (Inl e, w\<lparr>show_calls := show_calls w @ [img]\<rparr>)
      | None \<Rightarrow> (Inr (), w\<lparr>show_calls := show_calls w @ [img]\<rparr>))"

text \<open>Truth value of an \<open>Optional\<close> attribute holding an object: false exactly for \<open>None\<close>.\<close>

definition truthy :: "'a option \<Rightarrow> bool" where
  "truthy x \<longleftrightarrow> x \<noteq> None"

text \<open>
  \<^verbatim>\<open>
      if part.inline_data:
          image = part.as_image()
          image.show()
  \<close>
\<close>

definition loop_body :: "env \<Rightarrow> part \<Rightarrow> (world, unit) prog" where
  "loop_body E p =
     (if truthy (inline_data p)
      then and_then (lift_result (as_image E p)) (\<lambda>image. image_show E image)
      else done_with ())"

fun for_parts :: "env \<Rightarrow> part list \<Rightarrow> (world, unit) prog" where
  "for_parts E [] w = (Inr (), w)"
| "for_parts E (p # ps) w =
     (case loop_body E p w of
        (Inl e, w') \<Rightarrow> (Inl e, w')
      | (Inr _, w') \<Rightarrow> for_parts E ps w')"

definition model_name :: string where
  "model_name = ''gemini-2.5-flash-image''"

definition prompt :: string where
  "prompt = ''Create a picture of a futuristic banana with neon lights in a cyberpunk city.''"

text \<open>
  \<^verbatim>\<open>
  from google import genai
  from PIL import Image
  client = genai.Client()
  response = client.models.generate_content(model=..., contents=...)
  for part in response.parts: ...
  \<close>
\<close>

definition testgeneration :: "env \<Rightarrow> (world, unit) prog" where
  "testgeneration E =
     and_then (import_from E ''google'' ''genai'') (\<lambda>_.
     and_then (import_from E ''PIL'' ''Image'') (\<lambda>_.
     and_then (genai_Client E) (\<lambda>client.
     and_then (models_generate_content E client model_name prompt) (\<lambda>response.
     and_then (iterate (parts response)) (\<lambda>ps.
     for_parts E ps)))))"

text \<open>What a run starting in \<open>w\<close> adds to the calls on record.\<close>

definition called :: "env \<Rightarrow> world \<Rightarrow> (string \<times> string) list" where
  "called E w = drop (length (api_calls w)) (api_calls (snd (testgeneration E w)))"

definition shown :: "env \<Rightarrow> world \<Rightarrow> image list" where
  "shown E w = drop (length (show_calls w)) (show_calls (snd (testgeneration E w)))"

text \<open>
  The exception that handling one part raises, if any: that of \<open>as_image\<close>, else that of
  \<open>show\<close>, and none for a part without inline data.
\<close>

definition display_raises :: "env \<Rightarrow> part \<Rightarrow> error option" where
  "display_raises E p =
     (if truthy (inline_data p)
      then (case as_image E p of Inl e \<Rightarrow> Some e | Inr img \<Rightarrow> show_image E img)
      else None)"

section \<open>The loops of both scripts, as loops\<close>

text \<open>
  The functions above are total by the way they are written. To state that the scripts
  end, their loops are written here the way the interpreter runs them, with results in
  \<open>option\<close>: a loop that never ends has the value \<open>None\<close>.

  \<open>s * n\<close> appends \<open>s\<close> to an accumulator and counts \<open>n\<close> down to zero.
\<close>

partial_function (option) repeat_loop :: "pystr \<Rightarrow> int \<Rightarrow> pystr \<Rightarrow> pystr option" where
  "repeat_loop s n acc = (if n \<le> 0 then Some acc else repeat_loop s (n - 1) (acc @ s))"

text \<open>
  \<open>for part in response.parts\<close> over a list: the list iterator holds an index, hands out
  the element there and advances, and stops when the index reaches the length.
\<close>

partial_function (option) for_loop ::
  "env \<Rightarrow> part list \<Rightarrow> nat \<Rightarrow> world \<Rightarrow> ((error + unit) \<times> world) option" where
  "for_loop E ps i w =
     (if i < length ps
      then (case loop_body E (ps ! i) w of
              (Inl e, w') \<Rightarrow> Some (Inl e, w')
            | (Inr _, w') \<Rightarrow> for_loop E ps (Suc i) w')
      else Some (Inr (), w))"

text \<open>Lines 4 to 33 of test-random-stuff.py, each repetition run as a loop.\<close>

definition run_monster :: "pystr option" where
  "run_monster =
     Option.bind (repeat_loop [0x20DD] 5 []) (\<lambda>circles.
     Option.bind (repeat_loop [0x20DE] 5 []) (\<lambda>squares.
     Option.bind (repeat_loop [0x20DF] 5 []) (\<lambda>diamonds.
     Option.bind (repeat_loop [0x0E47] 10 []) (\<lambda>taikhu.
     Option.bind (repeat_loop [0x0304, 0x0305, 0x030D, 0x0342, 0x035B, 0x0352] 3 []) (\<lambda>above.
     Option.bind (repeat_loop [0x0E38] 5 []) (\<lambda>sara_u.
     Option.bind (repeat_loop [0x0317, 0x0316, 0x0320, 0x0329, 0x032A, 0x0330] 2 []) (\<lambda>below.
     Some (base @ (circles @ squares @ diamonds) @ (taikhu @ above) @ (sara_u @ below)))))))))"

definition run_test_random_stuff :: "world \<Rightarrow> ((error + unit) \<times> world) option" where
  "run_test_random_stuff w =
     (case on_stdout (reconfigure ''utf-8'') w of
        (Inl e, w') \<Rightarrow> Some (Inl e, w')
      | (Inr _, w') \<Rightarrow> Option.bind run_monster (\<lambda>m. Some (on_stdout (print m) w')))"

definition run_testgeneration :: "env \<Rightarrow> world \<Rightarrow> ((error + unit) \<times> world) option" where
  "run_testgeneration E w =
     (case and_then (import_from E ''google'' ''genai'') (\<lambda>_.
           and_then (import_from E ''PIL'' ''Image'') (\<lambda>_.
           and_then (genai_Client E) (\<lambda>client.
           and_then (models_generate_content E client model_name prompt) (\<lambda>response.
           iterate (parts response))))) w of
        (Inl e, w') \<Rightarrow> Some (Inl e, w')
      | (Inr ps, w') \<Rightarrow> for_loop E ps 0 w')"

section \<open>Concrete platforms and services\<close>

text \<open>A POSIX terminal with a Latin-1 locale, and a Windows console with an ASCII code page
  that replaces what it cannot encode.\<close>

definition posix_stdout :: text_io where
  "posix_stdout = \<lparr>encoding = Latin1, errors = Strict, writenl = None, flush_fault = None,
     write_fault = (\<lambda>_. None), written = [], sink = []\<rparr>"

definition windows_stdout :: text_io where
  "windows_stdout = \<lparr>encoding = Ascii, errors = Replace, writenl = Some CRLF,
     flush_fault = None, write_fault = (\<lambda>_. None), written = [], sink = []\<rparr>"

definition posix_world :: world where
  "posix_world = \<lparr>stdout = posix_stdout, files = Map.empty, api_calls = [], show_calls = []\<rparr>"

definition windows_world :: world where
  "windows_world =
     \<lparr>stdout = windows_stdout, files = Map.empty, api_calls = [], show_calls = []\<rparr>"

text \<open>A standard output whose pipe is closed: every write raises.\<close>

definition broken_pipe_world :: world where
  "broken_pipe_world =
     posix_world\<lparr>stdout := posix_stdout\<lparr>write_fault := (\<lambda>_. Some (Raised ''BrokenPipeError''))\<rparr>\<rparr>"

text \<open>
  A service that answers with a text part, an image part and an empty part; one that
  answers with text only; an installation without an API key, where \<open>genai.Client()\<close>
  raises; and a machine without a display, where \<open>show\<close> raises.
\<close>

definition text_part :: part where
  "text_part = \<lparr>part_text = Some [0x48, 0x69], inline_data = None\<rparr>"

definition image_part :: part where
  "image_part =
     \<lparr>part_text = None, inline_data = Some \<lparr>mime_type = ''image/png'', payload = [0x89, 0x50]\<rparr>\<rparr>"

definition empty_part :: part where
  "empty_part = \<lparr>part_text = None, inline_data = None\<rparr>"

definition decode_image :: "part \<Rightarrow> error + image" where
  "decode_image p =
     (case inline_data p of
        None \<Rightarrow> Inl (Raised ''AttributeError'')
      | Some b \<Rightarrow> Inr (Image (payload b) (mime_type b)))"

definition banana_env :: env where
  "banana_env = \<lparr>import_module = (\<lambda>_. None), new_client = Inr Client,
     generate_content = (\<lambda>_ _ _. Inr \<lparr>parts = Some [text_part, image_part, empty_part]\<rparr>),
     as_image = decode_image, show_image = (\<lambda>_. None)\<rparr>"

definition text_only_env :: env where
  "text_only_env = banana_env\<lparr>generate_content :=
     (\<lambda>_ _ _. Inr \<lparr>parts = Some [text_part, empty_part]\<rparr>)\<rparr>"

definition no_key_env :: env where
  "no_key_env = banana_env\<lparr>new_client := Inl (Raised ''ValueError'')\<rparr>"

definition no_display_env :: env where
  "no_display_env = banana_env\<lparr>show_image := (\<lambda>_. Some (Raised ''OSError''))\<rparr>"

text \<open>A service that answers without candidates: \<open>response.parts\<close> is \<open>None\<close>.\<close>

definition no_parts_env :: env where
  "no_parts_env = banana_env\<lparr>generate_content := (\<lambda>_ _ _. Inr \<lparr>parts = None\<rparr>)\<rparr>"

section \<open>The strings of test-random-stuff.py\<close>

lemma replicate_2: "replicate 2 x = [x, x]"
  by (simp add: numeral_2_eq_2)

lemma replicate_3: "replicate 3 x = [x, x, x]"
  by (simp add: numeral_3_eq_3)

lemma replicate_5: "replicate 5 x = [x, x, x, x, x]"
  by (simp add: eval_nat_numeral)

lemma replicate_10: "replicate 10 x = [x, x, x, x, x, x, x, x, x, x]"
  by (simp add: eval_nat_numeral)

lemmas str_mul_unfold = str_mul_def replicate_2 replicate_3 replicate_5 replicate_10

lemma monster_explicit:
  "monster =
     [0x0E01,
      0x20DD, 0x20DD, 0x20DD, 0x20DD, 0x20DD,
      0x20DE, 0x20DE, 0x20DE, 0x20DE, 0x20DE,
      0x20DF, 0x20DF, 0x20DF, 0x20DF, 0x20DF,
      0x0E47, 0x0E47, 0x0E47, 0x0E47, 0x0E47, 0x0E47, 0x0E47, 0x0E47, 0x0E47, 0x0E47,
      0x0304, 0x0305, 0x030D, 0x0342, 0x035B, 0x0352,
      0x0304, 0x0305, 0x030D, 0x0342, 0x035B, 0x0352,
      0x0304, 0x0305, 0x030D, 0x0342, 0x035B, 0x0352,
      0x0E38, 0x0E38, 0x0E38, 0x0E38, 0x0E38,
      0x0317, 0x0316, 0x0320, 0x0329, 0x032A, 0x0330,
      0x0317, 0x0316, 0x0320, 0x0329, 0x032A, 0x0330]"
  by (simp add: monster_def base_def side_wall_def up_stack_def down_stack_def str_mul_unfold)

text \<open>
  C6. The string \<open>monster\<close> has exactly 61 code points: the 1 of \<open>base\<close>; the 15 of
  \<open>side_wall\<close>, three distinct enclosing marks five times each; the 28 of \<open>up_stack\<close>, ten
  mai taikhu and a group of six marks three times; the 17 of \<open>down_stack\<close>, five sara u and
  a group of six marks twice.
\<close>

theorem monster_has_61_code_points:
  "length monster = 61 \<and> length monster = 1 + 15 + 28 + 17 \<and>
   length base = 1 \<and>
   length side_wall = 3 * 5 \<and>
   side_wall = replicate 5 0x20DD @ replicate 5 0x20DE @ replicate 5 0x20DF \<and>
   distinct [0x20DD, 0x20DE, 0x20DF :: codepoint] \<and>
   length up_stack = 10 + 6 * 3 \<and>
   up_stack = replicate 10 0x0E47 @
     concat (replicate 3 [0x0304, 0x0305, 0x030D, 0x0342, 0x035B, 0x0352]) \<and>
   length down_stack = 5 + 6 * 2 \<and>
   down_stack = replicate 5 0x0E38 @
     concat (replicate 2 [0x0317, 0x0316, 0x0320, 0x0329, 0x032A, 0x0330])"
  by (simp add: monster_explicit base_def side_wall_def up_stack_def down_stack_def
      str_mul_unfold)

section \<open>Running test-random-stuff.py\<close>

lemma translate_monster: "translate_newlines nl monster = monster"
  unfolding monster_explicit by (cases nl) (simp_all add: translate_newlines_def)

lemma translate_end:
  "translate_newlines nl [0x0A] = (case nl of None \<Rightarrow> [0x0A] | Some le \<Rightarrow> lineend_str le)"
  by (cases nl) (simp_all add: translate_newlines_def)

lemma encode_utf8_end:
  "encode Utf8 Strict (translate_newlines nl [0x0A]) =
     Inr (case nl of None \<Rightarrow> [0x0A] | Some LF \<Rightarrow> [0x0A] | Some CR \<Rightarrow> [0x0D]
          | Some CRLF \<Rightarrow> [0x0D, 0x0A])"
  by (simp add: translate_end utf8_char_def split: option.split lineend.split)

lemma encode_append_strict:
  "encode cd Strict (a @ b) =
     (case encode cd Strict a of
        Inl e \<Rightarrow> Inl e
      | Inr x \<Rightarrow> (case encode cd Strict b of Inl e \<Rightarrow> Inl e | Inr y \<Rightarrow> Inr (x @ y)))"
  by (induction a) (auto split: option.splits sum.splits)

lemma encode_utf8_monster_ok: "\<exists>mb. encode Utf8 Strict monster = Inr mb"
  unfolding monster_explicit by (simp add: utf8_char_def)

lemma reconfigure_utf8:
  "reconfigure ''utf-8'' f =
     (case flush_fault f of
        Some e \<Rightarrow> (Inl e, f)
      | None \<Rightarrow> (Inr (), f\<lparr>encoding := Utf8, errors := Strict\<rparr>))"
  by (simp add: reconfigure_def lookup_codec_def split: option.split)

lemma test_random_stuff_run:
  assumes mb: "encode Utf8 Strict monster = Inr mb"
    and nb: "encode Utf8 Strict (translate_newlines (writenl (stdout w)) [0x0A]) = Inr nb"
  shows "test_random_stuff w =
     (case flush_fault (stdout w) of
        Some e \<Rightarrow> (Inl e, w)
      | None \<Rightarrow>
          (case write_fault (stdout w) mb of
             Some e \<Rightarrow> (Inl e, w\<lparr>stdout := (stdout w)\<lparr>encoding := Utf8, errors := Strict\<rparr>\<rparr>)
           | None \<Rightarrow>
               (case write_fault (stdout w) nb of
                  Some e \<Rightarrow>
                    (Inl e, w\<lparr>stdout := (stdout w)\<lparr>encoding := Utf8, errors := Strict,
                       written := written (stdout w) @ [monster],
                       sink := sink (stdout w) @ mb\<rparr>\<rparr>)
                | None \<Rightarrow>
                    (Inr (), w\<lparr>stdout := (stdout w)\<lparr>encoding := Utf8, errors := Strict,
                       written := written (stdout w) @ [monster, [0x0A]],
                       sink := sink (stdout w) @ mb @ nb\<rparr>\<rparr>))))"
  using mb nb
  by (simp add: test_random_stuff_def and_then_def on_stdout_def reconfigure_utf8 print_def
      write_text_def translate_monster split: option.split)


lemma posix_run: "fst (test_random_stuff posix_world) = Inr ()"
proof -
  obtain mb where mb: "encode Utf8 Strict monster = Inr mb"
    using encode_utf8_monster_ok by blast
  show ?thesis
    using test_random_stuff_run [OF mb encode_utf8_end, of posix_world]
    by (simp add: posix_world_def posix_stdout_def)
qed

lemma windows_run: "fst (test_random_stuff windows_world) = Inr ()"
proof -
  obtain mb where mb: "encode Utf8 Strict monster = Inr mb"
    using encode_utf8_monster_ok by blast
  show ?thesis
    using test_random_stuff_run [OF mb encode_utf8_end, of windows_world]
    by (simp add: windows_world_def windows_stdout_def)
qed

lemma printed_cases:
  "printed w = [] \<or> printed w = [monster] \<or>
   (fst (test_random_stuff w) = Inr () \<and> printed w = [monster, [0x0A]])"
proof -
  obtain mb where mb: "encode Utf8 Strict monster = Inr mb"
    using encode_utf8_monster_ok by blast
  show ?thesis
    unfolding printed_def test_random_stuff_run [OF mb encode_utf8_end]
    by (simp split: option.split)
qed

lemma printed_success:
  assumes "fst (test_random_stuff w) = Inr ()"
  shows "printed w = [monster, [0x0A]]"
proof -
  obtain mb where mb: "encode Utf8 Strict monster = Inr mb"
    using encode_utf8_monster_ok by blast
  show ?thesis
    using assms unfolding printed_def test_random_stuff_run [OF mb encode_utf8_end]
    by (simp split: option.splits)
qed

lemma bytes_out_success:
  assumes "fst (test_random_stuff w) = Inr ()"
  shows "encode Utf8 Strict (monster @ translate_newlines (writenl (stdout w)) [0x0A]) =
           Inr (bytes_out w)"
proof -
  obtain mb where mb: "encode Utf8 Strict monster = Inr mb"
    using encode_utf8_monster_ok by blast
  show ?thesis
    using assms
    unfolding bytes_out_def test_random_stuff_run [OF mb encode_utf8_end]
    by (simp add: encode_append_strict mb encode_utf8_end split: option.splits)
qed



text \<open>
  C5. The script reads nothing: whatever the standard output it starts with (encoding,
  error mode, newline convention, earlier output), two runs that complete have printed the
  same text, and two runs of which a fault has cut one short have printed texts of which
  one is the beginning of the other.
\<close>

theorem glyph_output_deterministic:
  "(fst (test_random_stuff w1) = Inr () \<longrightarrow> fst (test_random_stuff w2) = Inr () \<longrightarrow>
      printed w1 = printed w2 \<and> printed w1 = [monster, [0x0A]]) \<and>
   (take (length (printed w1)) (printed w2) = printed w1 \<or>
    take (length (printed w2)) (printed w1) = printed w2)"
proof (intro conjI impI)
  assume "fst (test_random_stuff w1) = Inr ()" "fst (test_random_stuff w2) = Inr ()"
  then show "printed w1 = printed w2" "printed w1 = [monster, [0x0A]]"
    by (simp_all add: printed_success)
next
  from printed_cases [of w1] printed_cases [of w2]
  show "take (length (printed w1)) (printed w2) = printed w1 \<or>
        take (length (printed w2)) (printed w1) = printed w2"
    by auto
qed

theorem glyph_output_deterministic_witness:
  "fst (test_random_stuff posix_world) = Inr () \<and>
   fst (test_random_stuff windows_world) = Inr () \<and>
   encoding (stdout posix_world) \<noteq> encoding (stdout windows_world) \<and>
   writenl (stdout posix_world) \<noteq> writenl (stdout windows_world) \<and>
   printed posix_world = printed windows_world"
  using glyph_output_deterministic [of posix_world windows_world] posix_run windows_run
  by (simp add: posix_world_def windows_world_def posix_stdout_def windows_stdout_def)

text \<open>
  C9, as stated, does not hold: the bytes the \<open>print\<close> statement writes are not the UTF-8
  encoding of \<open>monster\<close> alone. On a POSIX standard output they are that encoding followed
  by the byte \<open>0x0A\<close>, the \<open>end\<close> of \<open>print\<close>.
\<close>

theorem print_bytes_not_only_monster:
  "fst (test_random_stuff posix_world) = Inr () \<and>
   encode Utf8 Strict monster \<noteq> Inr (bytes_out posix_world) \<and>
   encode Utf8 Strict monster = Inr (butlast (bytes_out posix_world)) \<and>
   last (bytes_out posix_world) = 0x0A"
proof -
  obtain mb where mb: "encode Utf8 Strict monster = Inr mb"
    using encode_utf8_monster_ok by blast
  have "encode Utf8 Strict (monster @ [0x0A]) = Inr (bytes_out posix_world)"
    using bytes_out_success [OF posix_run]
    by (simp add: posix_world_def posix_stdout_def translate_newlines_def)
  then have "bytes_out posix_world = mb @ [0x0A]"
    by (simp add: encode_append_strict mb utf8_char_def)
  then show ?thesis
    using mb posix_run by simp
qed

text \<open>
  C9, amended. The script sets the encoding of standard output to UTF-8 before it writes,
  so the bytes a completed run has written are exactly the UTF-8 encoding of \<open>monster\<close>
  followed by the line terminator of \<open>print\<close> (\<open>\n\<close> after the stream's newline
  translation), whatever encoding and error mode the platform had chosen.
\<close>

theorem print_bytes_utf8:
  "fst (test_random_stuff w) = Inr () \<Longrightarrow>
     encoding (stdout (snd (test_random_stuff w))) = Utf8 \<and>
     encode Utf8 Strict (monster @ translate_newlines (writenl (stdout w)) [0x0A]) =
       Inr (bytes_out w)"
proof -
  assume ok: "fst (test_random_stuff w) = Inr ()"
  obtain mb where mb: "encode Utf8 Strict monster = Inr mb"
    using encode_utf8_monster_ok by blast
  have "encoding (stdout (snd (test_random_stuff w))) = Utf8"
    using ok unfolding test_random_stuff_run [OF mb encode_utf8_end]
    by (simp split: option.splits)
  then show ?thesis
    using bytes_out_success [OF ok] by simp
qed

theorem print_bytes_utf8_witness:
  "fst (test_random_stuff windows_world) = Inr () \<and>
   encoding (stdout windows_world) = Ascii \<and>
   encoding (stdout (snd (test_random_stuff windows_world))) = Utf8 \<and>
   encode Utf8 Strict (monster @ [0x0D, 0x0A]) = Inr (bytes_out windows_world)"
  using print_bytes_utf8 [OF windows_run] windows_run
  by (simp add: windows_world_def windows_stdout_def translate_newlines_def)

section \<open>Running testgeneration.py\<close>

lemma loop_body_run:
  "loop_body E p w =
     (if inline_data p = None then (Inr (), w)
      else (case as_image E p of
              Inl e \<Rightarrow> (Inl e, w)
            | Inr img \<Rightarrow>
                (case show_image E img of Some e \<Rightarrow> Inl e | None \<Rightarrow> Inr (),
                 w\<lparr>show_calls := show_calls w @ [img]\<rparr>)))"
  by (simp add: loop_body_def truthy_def and_then_def lift_result_def image_show_def
      done_with_def split: sum.split option.split)

lemma loop_body_fst:
  "fst (loop_body E p w) = (case display_raises E p of Some e \<Rightarrow> Inl e | None \<Rightarrow> Inr ())"
  by (simp add: loop_body_run display_raises_def truthy_def split: sum.split option.split)

lemma for_parts_frame:
  "stdout (snd (for_parts E ps w)) = stdout w \<and>
   files (snd (for_parts E ps w)) = files w \<and>
   api_calls (snd (for_parts E ps w)) = api_calls w"
proof (induction ps arbitrary: w)
  case Nil
  show ?case by simp
next
  case (Cons p ps)
  show ?case
    using Cons.IH [of "snd (loop_body E p w)"]
    by (auto simp: loop_body_run split: sum.splits option.splits prod.splits)
qed

lemma for_parts_shows:
  "\<exists>imgs. show_calls (snd (for_parts E ps w)) = show_calls w @ imgs \<and>
     map Inr imgs = take (length imgs) (map (as_image E) (filter (\<lambda>p. inline_data p \<noteq> None) ps)) \<and>
     (fst (for_parts E ps w) = Inr () \<longrightarrow>
        map Inr imgs = map (as_image E) (filter (\<lambda>p. inline_data p \<noteq> None) ps) \<and>
        (\<forall>i \<in> set imgs. show_image E i = None))"
proof (induction ps arbitrary: w)
  case Nil
  show ?case by simp
next
  case (Cons p ps)
  show ?case
  proof (cases "inline_data p = None")
    case True
    then show ?thesis
      using Cons.IH [of w] by (simp add: loop_body_run)
  next
    case False
    show ?thesis
    proof (cases "as_image E p")
      case (Inl e)
      with False show ?thesis
        by (intro exI [of _ "[]"]) (simp add: loop_body_run del: not_None_eq)
    next
      case (Inr img)
      let ?w = "w\<lparr>show_calls := show_calls w @ [img]\<rparr>"
      show ?thesis
      proof (cases "show_image E img")
        case None
        from Cons.IH [of ?w] obtain imgs where
          imgs: "show_calls (snd (for_parts E ps ?w)) = show_calls ?w @ imgs"
            "map Inr imgs =
               take (length imgs) (map (as_image E) (filter (\<lambda>p. inline_data p \<noteq> None) ps))"
            "fst (for_parts E ps ?w) = Inr () \<longrightarrow>
               map Inr imgs = map (as_image E) (filter (\<lambda>p. inline_data p \<noteq> None) ps) \<and>
               (\<forall>i \<in> set imgs. show_image E i = None)"
          by blast
        show ?thesis
          using False Inr None imgs
          by (intro exI [of _ "img # imgs"]) (simp add: loop_body_run del: not_None_eq)
      next
        case (Some e)
        show ?thesis
          using False Inr Some
          by (intro exI [of _ "[img]"]) (simp add: loop_body_run del: not_None_eq)
      qed
    qed
  qed
qed

lemma for_parts_error:
  "fst (for_parts E ps w) = Inl e \<longleftrightarrow>
     (\<exists>ps1 p ps2. ps = ps1 @ p # ps2 \<and> (\<forall>q \<in> set ps1. display_raises E q = None) \<and>
        display_raises E p = Some e)"
proof (induction ps arbitrary: w)
  case Nil
  show ?case by simp
next
  case (Cons a ps)
  show ?case
  proof (cases "display_raises E a")
    case None
    then have step: "fst (for_parts E (a # ps) w) = fst (for_parts E ps (snd (loop_body E a w)))"
      using loop_body_fst [of E a w] by (cases "loop_body E a w") auto
    have "(\<exists>ps1 p ps2. a # ps = ps1 @ p # ps2 \<and> (\<forall>q \<in> set ps1. display_raises E q = None) \<and>
             display_raises E p = Some e) \<longleftrightarrow>
          (\<exists>ps1 p ps2. ps = ps1 @ p # ps2 \<and> (\<forall>q \<in> set ps1. display_raises E q = None) \<and>
             display_raises E p = Some e)" (is "?L \<longleftrightarrow> ?R")
    proof
      assume ?L
      then obtain ps1 p ps2 where h: "a # ps = ps1 @ p # ps2"
        "\<forall>q \<in> set ps1. display_raises E q = None" "display_raises E p = Some e"
        by blast
      show ?R
      proof (cases ps1)
        case Nil
        with h None show ?thesis by simp
      next
        case (Cons b ps1')
        with h show ?thesis by auto
      qed
    next
      assume ?R
      then obtain ps1 p ps2 where h: "ps = ps1 @ p # ps2"
        "\<forall>q \<in> set ps1. display_raises E q = None" "display_raises E p = Some e"
        by blast
      show ?L
        using h None by (intro exI [of _ "a # ps1"] exI [of _ p] exI [of _ ps2]) simp
    qed
    with step Cons.IH show ?thesis by simp
  next
    case (Some e')
    then have step: "fst (for_parts E (a # ps) w) = Inl e'"
      using loop_body_fst [of E a w] by (cases "loop_body E a w") auto
    have "(\<exists>ps1 p ps2. a # ps = ps1 @ p # ps2 \<and> (\<forall>q \<in> set ps1. display_raises E q = None) \<and>
             display_raises E p = Some e) \<longleftrightarrow> e' = e" (is "?L \<longleftrightarrow> _")
    proof
      assume ?L
      then obtain ps1 p ps2 where h: "a # ps = ps1 @ p # ps2"
        "\<forall>q \<in> set ps1. display_raises E q = None" "display_raises E p = Some e"
        by blast
      show "e' = e"
      proof (cases ps1)
        case Nil
        with h Some show ?thesis by simp
      next
        case (Cons b ps1')
        with h Some show ?thesis by auto
      qed
    next
      assume "e' = e"
      with Some show ?L
        by (intro exI [of _ "[]"] exI [of _ a] exI [of _ ps]) simp
    qed
    with step show ?thesis by simp
  qed
qed

lemma testgeneration_run:
  "testgeneration E w =
     (case import_module E ''google.genai'' of
        Some e \<Rightarrow> (Inl e, w)
      | None \<Rightarrow>
          (case import_module E ''PIL.Image'' of
             Some e \<Rightarrow> (Inl e, w)
           | None \<Rightarrow>
               (case new_client E of
                  Inl e \<Rightarrow> (Inl e, w)
                | Inr c \<Rightarrow>
                    (case generate_content E c model_name prompt of
                       Inl e \<Rightarrow> (Inl e, w\<lparr>api_calls := api_calls w @ [(model_name, prompt)]\<rparr>)
                     | Inr r \<Rightarrow>
                         (case parts r of
                            None \<Rightarrow>
                              (Inl TypeError,
                               w\<lparr>api_calls := api_calls w @ [(model_name, prompt)]\<rparr>)
                          | Some ps \<Rightarrow>
                              for_parts E ps
                                (w\<lparr>api_calls := api_calls w @ [(model_name, prompt)]\<rparr>))))))"
  by (simp add: testgeneration_def and_then_def import_from_def lift_fault_def genai_Client_def
      lift_result_def models_generate_content_def iterate_def raise_def done_with_def
      split: option.split sum.split)

lemma called_run:
  "called E w =
     (if import_module E ''google.genai'' = None \<and> import_module E ''PIL.Image'' = None \<and>
         (\<exists>c. new_client E = Inr c)
      then [(model_name, prompt)] else [])"
  by (auto simp: called_def testgeneration_run for_parts_frame
      split: option.splits sum.splits)

lemma testgeneration_frame:
  "stdout (snd (testgeneration E w)) = stdout w \<and> files (snd (testgeneration E w)) = files w"
  by (simp add: testgeneration_run for_parts_frame split: option.splits sum.splits)

lemma shown_run:
  assumes "import_module E ''google.genai'' = None" "import_module E ''PIL.Image'' = None"
    and "new_client E = Inr c" "generate_content E c model_name prompt = Inr r"
    and "parts r = Some ps"
  shows "map Inr (shown E w) =
           take (length (shown E w))
             (map (as_image E) (filter (\<lambda>p. inline_data p \<noteq> None) ps)) \<and>
         (fst (testgeneration E w) = Inr () \<longrightarrow>
            map Inr (shown E w) = map (as_image E) (filter (\<lambda>p. inline_data p \<noteq> None) ps) \<and>
            (\<forall>i \<in> set (shown E w). show_image E i = None))"
proof -
  let ?w = "w\<lparr>api_calls := api_calls w @ [(model_name, prompt)]\<rparr>"
  have run: "testgeneration E w = for_parts E ps ?w"
    using assms by (simp add: testgeneration_run)
  from for_parts_shows [of E ps ?w] obtain imgs where
    imgs: "show_calls (snd (for_parts E ps ?w)) = show_calls ?w @ imgs"
      "map Inr imgs =
         take (length imgs) (map (as_image E) (filter (\<lambda>p. inline_data p \<noteq> None) ps))"
      "fst (for_parts E ps ?w) = Inr () \<longrightarrow>
         map Inr imgs = map (as_image E) (filter (\<lambda>p. inline_data p \<noteq> None) ps) \<and>
         (\<forall>i \<in> set imgs. show_image E i = None)"
    by blast
  have "shown E w = imgs"
    using imgs(1) by (simp add: shown_def run)
  with imgs run show ?thesis by simp
qed

lemma shown_without_response:
  assumes "\<not> (import_module E ''google.genai'' = None \<and> import_module E ''PIL.Image'' = None \<and>
    (\<exists>c r ps. new_client E = Inr c \<and> generate_content E c model_name prompt = Inr r \<and>
       parts r = Some ps))"
  shows "shown E w = []"
  using assms
  by (auto simp: shown_def testgeneration_run split: option.splits sum.splits)

lemma for_parts_skip:
  "\<forall>p \<in> set ps. inline_data p = None \<Longrightarrow> for_parts E ps w = (Inr (), w)"
  by (induction ps arbitrary: w) (simp_all add: loop_body_run)

lemma banana_run: "fst (testgeneration banana_env posix_world) = Inr ()"
  by (simp add: testgeneration_run banana_env_def loop_body_run text_part_def image_part_def
      empty_part_def decode_image_def)

text \<open>
  C2. Once the modules are imported and the client is constructed, a run performs exactly
  one call of \<open>generate_content\<close>, with model \<open>gemini-2.5-flash-image\<close> and the fixed
  prompt. It then goes through the response parts in order: the images handed to \<open>show\<close>
  are, in order, the \<open>as_image\<close> of the parts that carry \<open>inline_data\<close>, all of them when
  the run completes and the first of them when an exception ends it.
\<close>

theorem one_api_call_then_show_inline_parts:
  assumes "import_module E ''google.genai'' = None" and "import_module E ''PIL.Image'' = None"
    and "new_client E = Inr c"
  shows "called E w =
           [(''gemini-2.5-flash-image'',
             ''Create a picture of a futuristic banana with neon lights in a cyberpunk city.'')] \<and>
         (\<forall>r ps. generate_content E c model_name prompt = Inr r \<longrightarrow> parts r = Some ps \<longrightarrow>
            map Inr (shown E w) =
              take (length (shown E w))
                (map (as_image E) (filter (\<lambda>p. inline_data p \<noteq> None) ps))) \<and>
         (fst (testgeneration E w) = Inr () \<longrightarrow>
            (\<exists>r ps. generate_content E c model_name prompt = Inr r \<and> parts r = Some ps \<and>
               map Inr (shown E w) =
                 map (as_image E) (filter (\<lambda>p. inline_data p \<noteq> None) ps) \<and>
               (\<forall>i \<in> set (shown E w). show_image E i = None)))"
proof (intro conjI allI impI)
  show "called E w =
          [(''gemini-2.5-flash-image'',
            ''Create a picture of a futuristic banana with neon lights in a cyberpunk city.'')]"
    using assms by (simp add: called_run model_name_def prompt_def)
next
  fix r ps
  assume "generate_content E c model_name prompt = Inr r" "parts r = Some ps"
  with assms shown_run [of E c r ps w]
  show "map Inr (shown E w) =
          take (length (shown E w)) (map (as_image E) (filter (\<lambda>p. inline_data p \<noteq> None) ps))"
    by blast
next
  assume ok: "fst (testgeneration E w) = Inr ()"
  then obtain r ps where r: "generate_content E c model_name prompt = Inr r" "parts r = Some ps"
    using assms by (auto simp: testgeneration_run split: sum.splits option.splits)
  with assms ok shown_run [of E c r ps w]
  show "\<exists>r ps. generate_content E c model_name prompt = Inr r \<and> parts r = Some ps \<and>
          map Inr (shown E w) = map (as_image E) (filter (\<lambda>p. inline_data p \<noteq> None) ps) \<and>
          (\<forall>i \<in> set (shown E w). show_image E i = None)"
    by blast
qed

theorem one_api_call_then_show_inline_parts_witness:
  "called banana_env posix_world =
     [(''gemini-2.5-flash-image'',
       ''Create a picture of a futuristic banana with neon lights in a cyberpunk city.'')] \<and>
   fst (testgeneration banana_env posix_world) = Inr () \<and>
   shown banana_env posix_world = [Image [0x89, 0x50] ''image/png'']"
proof -
  have env: "import_module banana_env ''google.genai'' = None"
    "import_module banana_env ''PIL.Image'' = None" "new_client banana_env = Inr Client"
    "\<And>r. (generate_content banana_env Client model_name prompt = Inr r) =
       (r = \<lparr>parts = Some [text_part, image_part, empty_part]\<rparr>)"
    by (auto simp: banana_env_def)
  from one_api_call_then_show_inline_parts [OF env(1-3), of posix_world] banana_run
  have "called banana_env posix_world =
     [(''gemini-2.5-flash-image'',
       ''Create a picture of a futuristic banana with neon lights in a cyberpunk city.'')]"
    and "map Inr (shown banana_env posix_world) =
       map (as_image banana_env)
         (filter (\<lambda>p. inline_data p \<noteq> None) [text_part, image_part, empty_part])"
    by (auto simp: env(4))
  then show ?thesis
    using banana_run
    by (simp add: banana_env_def text_part_def image_part_def empty_part_def decode_image_def
        map_eq_Cons_conv)
qed

text \<open>
  C7, as stated, does not hold: a response without candidates has \<open>response.parts = None\<close>,
  so no part of it carries \<open>inline_data\<close>, and the run does not complete: starting the
  loop raises \<open>TypeError\<close>, after the API call and before any image is shown.
\<close>

theorem no_parts_list_raises:
  "generate_content no_parts_env Client model_name prompt = Inr \<lparr>parts = None\<rparr> \<and>
   fst (testgeneration no_parts_env posix_world) = Inl TypeError \<and>
   called no_parts_env posix_world = [(model_name, prompt)] \<and>
   shown no_parts_env posix_world = []"
  by (simp add: testgeneration_run called_def shown_def no_parts_env_def banana_env_def
      posix_world_def)

text \<open>
  C7, amended. Parts without \<open>inline_data\<close> are skipped silently: when the response has a
  list of parts (\<open>response.parts\<close> is not \<open>None\<close>) and none of them carries \<open>inline_data\<close>,
  the run shows no image and completes without an error.
\<close>

theorem parts_without_inline_data_skipped:
  assumes "import_module E ''google.genai'' = None" and "import_module E ''PIL.Image'' = None"
    and "new_client E = Inr c" and "generate_content E c model_name prompt = Inr r"
    and "parts r = Some ps" and "\<forall>p \<in> set ps. inline_data p = None"
  shows "fst (testgeneration E w) = Inr () \<and> shown E w = [] \<and>
         show_calls (snd (testgeneration E w)) = show_calls w"
  using assms by (simp add: testgeneration_run for_parts_skip shown_def)

theorem parts_without_inline_data_skipped_witness:
  "parts \<lparr>parts = Some [text_part, empty_part]\<rparr> = Some [text_part, empty_part] \<and>
   inline_data text_part = None \<and> inline_data empty_part = None \<and>
   fst (testgeneration text_only_env posix_world) = Inr () \<and>
   shown text_only_env posix_world = [] \<and>
   show_calls (snd (testgeneration text_only_env posix_world)) = []"
proof -
  have a: "import_module text_only_env ''google.genai'' = None"
    and b: "import_module text_only_env ''PIL.Image'' = None"
    and c: "new_client text_only_env = Inr Client"
    and d: "generate_content text_only_env Client model_name prompt =
              Inr \<lparr>parts = Some [text_part, empty_part]\<rparr>"
    by (simp_all add: text_only_env_def banana_env_def)
  have e: "parts \<lparr>parts = Some [text_part, empty_part]\<rparr> = Some [text_part, empty_part]"
    by simp
  have f: "\<forall>p \<in> set [text_part, empty_part]. inline_data p = None"
    by (simp add: text_part_def empty_part_def)
  from parts_without_inline_data_skipped [OF a b c d e f, of posix_world] e f
  show ?thesis by (simp add: posix_world_def)
qed

section \<open>Errors, effects and termination of both scripts\<close>

text \<open>
  C3, as stated, does not hold: the image script can return an error although neither the
  API call, nor the iteration over the parts, nor the display of an image raises. Without
  an API key \<open>genai.Client()\<close> raises; the script ends with that error before any call of
  \<open>generate_content\<close> or \<open>show\<close>, and the service would have answered without an error.
\<close>

theorem client_error_without_api_call:
  "fst (testgeneration no_key_env posix_world) = Inl (Raised ''ValueError'') \<and>
   called no_key_env posix_world = [] \<and>
   shown no_key_env posix_world = [] \<and>
   generate_content no_key_env Client model_name prompt =
     Inr \<lparr>parts = Some [text_part, image_part, empty_part]\<rparr> \<and>
   map (display_raises no_key_env) [text_part, image_part, empty_part] = [None, None, None]"
  by (simp add: testgeneration_run called_def shown_def no_key_env_def banana_env_def
      display_raises_def truthy_def text_part_def image_part_def empty_part_def
      decode_image_def posix_world_def)

text \<open>
  C3, amended. Neither script handles errors. The image script returns an error exactly
  when one of its steps raises, in program order a module import, the construction of the
  client, the API call, the iteration over \<open>response.parts\<close> (a \<open>TypeError\<close> when it is
  \<open>None\<close>), or the display of a part (\<open>as_image\<close> or \<open>show\<close>) after the parts before it
  were handled without one; the error returned is the one raised. Likewise the glyph script
  returns an error exactly when the flush of \<open>reconfigure\<close> or one of the two writes of
  \<open>print\<close> raises, and returns that error.
\<close>

theorem errors_propagate_unchanged:
  "(fst (testgeneration E w) = Inl e \<longleftrightarrow>
      import_module E ''google.genai'' = Some e \<or>
      import_module E ''google.genai'' = None \<and>
        (import_module E ''PIL.Image'' = Some e \<or>
         import_module E ''PIL.Image'' = None \<and>
           (new_client E = Inl e \<or>
            (\<exists>c. new_client E = Inr c \<and>
               (generate_content E c model_name prompt = Inl e \<or>
                (\<exists>r. generate_content E c model_name prompt = Inr r \<and>
                   (parts r = None \<and> e = TypeError \<or>
                    (\<exists>ps1 p ps2. parts r = Some (ps1 @ p # ps2) \<and>
                       (\<forall>q \<in> set ps1. display_raises E q = None) \<and>
                       display_raises E p = Some e)))))))) \<and>
   (\<exists>mb nb. encode Utf8 Strict monster = Inr mb \<and>
      encode Utf8 Strict (translate_newlines (writenl (stdout w)) [0x0A]) = Inr nb \<and>
      (fst (test_random_stuff w) = Inl e \<longleftrightarrow>
         flush_fault (stdout w) = Some e \<or>
         flush_fault (stdout w) = None \<and>
           (write_fault (stdout w) mb = Some e \<or>
            write_fault (stdout w) mb = None \<and> write_fault (stdout w) nb = Some e)))"
proof (intro conjI)
  show "fst (testgeneration E w) = Inl e \<longleftrightarrow>
      import_module E ''google.genai'' = Some e \<or>
      import_module E ''google.genai'' = None \<and>
        (import_module E ''PIL.Image'' = Some e \<or>
         import_module E ''PIL.Image'' = None \<and>
           (new_client E = Inl e \<or>
            (\<exists>c. new_client E = Inr c \<and>
               (generate_content E c model_name prompt = Inl e \<or>
                (\<exists>r. generate_content E c model_name prompt = Inr r \<and>
                   (parts r = None \<and> e = TypeError \<or>
                    (\<exists>ps1 p ps2. parts r = Some (ps1 @ p # ps2) \<and>
                       (\<forall>q \<in> set ps1. display_raises E q = None) \<and>
                       display_raises E p = Some e)))))))"
    unfolding testgeneration_run
    by (auto simp: for_parts_error split: option.splits sum.splits)
next
  obtain mb where mb: "encode Utf8 Strict monster = Inr mb"
    using encode_utf8_monster_ok by blast
  let ?nb = "case writenl (stdout w) of None \<Rightarrow> [0x0A] | Some LF \<Rightarrow> [0x0A]
     | Some CR \<Rightarrow> [0x0D] | Some CRLF \<Rightarrow> [0x0D, 0x0A :: byte]"
  have "fst (test_random_stuff w) = Inl e \<longleftrightarrow>
         flush_fault (stdout w) = Some e \<or>
         flush_fault (stdout w) = None \<and>
           (write_fault (stdout w) mb = Some e \<or>
            write_fault (stdout w) mb = None \<and> write_fault (stdout w) ?nb = Some e)"
    unfolding test_random_stuff_run [OF mb encode_utf8_end]
    by (auto split: option.splits)
  with mb encode_utf8_end [of "writenl (stdout w)"]
  show "\<exists>mb nb. encode Utf8 Strict monster = Inr mb \<and>
      encode Utf8 Strict (translate_newlines (writenl (stdout w)) [0x0A]) = Inr nb \<and>
      (fst (test_random_stuff w) = Inl e \<longleftrightarrow>
         flush_fault (stdout w) = Some e \<or>
         flush_fault (stdout w) = None \<and>
           (write_fault (stdout w) mb = Some e \<or>
            write_fault (stdout w) mb = None \<and> write_fault (stdout w) nb = Some e))"
    by blast
qed

theorem errors_propagate_unchanged_witness:
  "new_client no_key_env = Inl (Raised ''ValueError'') \<and>
   fst (testgeneration no_key_env posix_world) = Inl (Raised ''ValueError'') \<and>
   display_raises no_display_env text_part = None \<and>
   display_raises no_display_env image_part = Some (Raised ''OSError'') \<and>
   fst (testgeneration no_display_env posix_world) = Inl (Raised ''OSError'') \<and>
   flush_fault (stdout broken_pipe_world) = None \<and>
   fst (test_random_stuff broken_pipe_world) = Inl (Raised ''BrokenPipeError'')"
proof -
  have env: "import_module no_key_env ''google.genai'' = None"
    "import_module no_key_env ''PIL.Image'' = None"
    "new_client no_key_env = Inl (Raised ''ValueError'')"
    by (simp_all add: no_key_env_def banana_env_def)
  have pipe: "flush_fault (stdout broken_pipe_world) = None"
    "\<And>bs. write_fault (stdout broken_pipe_world) bs = Some (Raised ''BrokenPipeError'')"
    by (simp_all add: broken_pipe_world_def posix_world_def posix_stdout_def)
  have disp: "import_module no_display_env ''google.genai'' = None"
    "import_module no_display_env ''PIL.Image'' = None"
    "new_client no_display_env = Inr Client"
    "generate_content no_display_env Client model_name prompt =
       Inr \<lparr>parts = Some ([text_part] @ image_part # [empty_part])\<rparr>"
    "\<forall>q \<in> set [text_part]. display_raises no_display_env q = None"
    "display_raises no_display_env image_part = Some (Raised ''OSError'')"
    by (simp_all add: no_display_env_def banana_env_def display_raises_def truthy_def
        text_part_def image_part_def decode_image_def)
  from errors_propagate_unchanged [of no_key_env posix_world "Raised ''ValueError''"] env
  have a: "fst (testgeneration no_key_env posix_world) = Inl (Raised ''ValueError'')"
    by blast
  have "\<exists>ps1 p ps2.
      parts \<lparr>parts = Some ([text_part] @ image_part # [empty_part])\<rparr> = Some (ps1 @ p # ps2) \<and>
      (\<forall>q \<in> set ps1. display_raises no_display_env q = None) \<and>
      display_raises no_display_env p = Some (Raised ''OSError'')"
    using disp(5,6)
    by (intro exI [of _ "[text_part]"] exI [of _ image_part] exI [of _ "[empty_part]"]) simp
  with errors_propagate_unchanged [of no_display_env posix_world "Raised ''OSError''"] disp(1-4)
  have b: "fst (testgeneration no_display_env posix_world) = Inl (Raised ''OSError'')"
    by simp
  from errors_propagate_unchanged [of banana_env broken_pipe_world "Raised ''BrokenPipeError''"]
    pipe
  have c: "fst (test_random_stuff broken_pipe_world) = Inl (Raised ''BrokenPipeError'')"
    by auto
  from a b c env pipe disp show ?thesis by simp
qed

lemma test_random_stuff_appends:
  "written (stdout (snd (test_random_stuff w))) = written (stdout w) @ printed w \<and>
   sink (stdout (snd (test_random_stuff w))) = sink (stdout w) @ bytes_out w"
proof -
  obtain mb where mb: "encode Utf8 Strict monster = Inr mb"
    using encode_utf8_monster_ok by blast
  show ?thesis
    unfolding printed_def bytes_out_def test_random_stuff_run [OF mb encode_utf8_end]
    by (simp split: option.split)
qed

lemma test_random_stuff_frame:
  "files (snd (test_random_stuff w)) = files w \<and>
   api_calls (snd (test_random_stuff w)) = api_calls w \<and>
   show_calls (snd (test_random_stuff w)) = show_calls w \<and>
   writenl (stdout (snd (test_random_stuff w))) = writenl (stdout w) \<and>
   flush_fault (stdout (snd (test_random_stuff w))) = flush_fault (stdout w) \<and>
   write_fault (stdout (snd (test_random_stuff w))) = write_fault (stdout w)"
proof -
  obtain mb where mb: "encode Utf8 Strict monster = Inr mb"
    using encode_utf8_monster_ok by blast
  show ?thesis
    unfolding test_random_stuff_run [OF mb encode_utf8_end]
    by (simp split: option.split)
qed

lemma printed_after_reconfigure:
  "printed w \<noteq> [] \<Longrightarrow> encoding (stdout (snd (test_random_stuff w))) = Utf8"
proof -
  assume p: "printed w \<noteq> []"
  obtain mb where mb: "encode Utf8 Strict monster = Inr mb"
    using encode_utf8_monster_ok by blast
  show ?thesis
    using p unfolding printed_def test_random_stuff_run [OF mb encode_utf8_end]
    by (simp split: option.splits)
qed

lemma testgeneration_appends:
  "api_calls (snd (testgeneration E w)) = api_calls w @ called E w \<and>
   take (length (show_calls w)) (show_calls (snd (testgeneration E w))) = show_calls w"
proof -
  have "\<And>ps w'. take (length (show_calls w')) (show_calls (snd (for_parts E ps w'))) =
      show_calls w'"
  proof -
    fix ps w'
    from for_parts_shows [of E ps w'] obtain imgs where
      "show_calls (snd (for_parts E ps w')) = show_calls w' @ imgs" by blast
    then show "take (length (show_calls w')) (show_calls (snd (for_parts E ps w'))) =
      show_calls w'" by simp
  qed
  from this [of "w\<lparr>api_calls := api_calls w @ [(model_name, prompt)]\<rparr>"]
  show ?thesis
    by (auto simp: called_def testgeneration_run for_parts_frame
        split: option.splits sum.splits)
qed

lemma shown_appends:
  "show_calls (snd (testgeneration E w)) = show_calls w @ shown E w"
  unfolding shown_def using testgeneration_appends [of E w]
  by (metis append_take_drop_id)

text \<open>
  C4. The glyph script leaves the files, the API calls and the images shown as they were;
  on standard output it keeps the newline setting and what was written before, appends its
  text, and has set the encoding to UTF-8 before any of its text is written. The image
  script leaves standard output and the files as they were, adds at most the one API call
  and appends the images it shows.
\<close>

theorem effects_are_framed:
  "files (snd (test_random_stuff w)) = files w \<and>
   api_calls (snd (test_random_stuff w)) = api_calls w \<and>
   show_calls (snd (test_random_stuff w)) = show_calls w \<and>
   writenl (stdout (snd (test_random_stuff w))) = writenl (stdout w) \<and>
   written (stdout (snd (test_random_stuff w))) = written (stdout w) @ printed w \<and>
   sink (stdout (snd (test_random_stuff w))) = sink (stdout w) @ bytes_out w \<and>
   (printed w \<noteq> [] \<longrightarrow> encoding (stdout (snd (test_random_stuff w))) = Utf8) \<and>
   stdout (snd (testgeneration E w)) = stdout w \<and>
   files (snd (testgeneration E w)) = files w \<and>
   api_calls (snd (testgeneration E w)) = api_calls w @ called E w \<and>
   (called E w = [] \<or> called E w = [(model_name, prompt)]) \<and>
   show_calls (snd (testgeneration E w)) = show_calls w @ shown E w"
  using test_random_stuff_frame [of w] test_random_stuff_appends [of w]
    printed_after_reconfigure [of w] testgeneration_frame [of E w]
    testgeneration_appends [of E w] shown_appends [of E w] called_run [of E w]
  by presburger

theorem effects_are_framed_witness:
  "printed posix_world \<noteq> [] \<and>
   encoding (stdout posix_world) = Latin1 \<and>
   encoding (stdout (snd (test_random_stuff posix_world))) = Utf8 \<and>
   files (snd (test_random_stuff posix_world)) = Map.empty \<and>
   stdout (snd (testgeneration banana_env posix_world)) = posix_stdout"
proof -
  have "printed posix_world = [monster, [0x0A]]"
    using printed_success [OF posix_run] .
  then have "printed posix_world \<noteq> []" by simp
  with effects_are_framed [of posix_world banana_env]
  show ?thesis by (simp add: posix_world_def posix_stdout_def)
qed

lemma shown_bound:
  assumes "new_client E = Inr c" "generate_content E c model_name prompt = Inr r"
    "parts r = Some ps"
  shows "length (shown E w) \<le> length ps"
proof (cases "import_module E ''google.genai'' = None \<and> import_module E ''PIL.Image'' = None")
  case True
  then have a: "import_module E ''google.genai'' = None"
    and b: "import_module E ''PIL.Image'' = None"
    by simp_all
  from shown_run [OF a b assms, of w]
  have "map Inr (shown E w) =
    take (length (shown E w)) (map (as_image E) (filter (\<lambda>p. inline_data p \<noteq> None) ps))"
    by (rule conjunct1)
  then have "length (map (Inr :: image \<Rightarrow> error + image) (shown E w)) =
    length (take (length (shown E w))
      (map (as_image E) (filter (\<lambda>p. inline_data p \<noteq> None) ps)))"
    by simp
  then have "length (shown E w) \<le> length (filter (\<lambda>p. inline_data p \<noteq> None) ps)"
    by simp
  also have "\<dots> \<le> length ps" by simp
  finally show ?thesis .
next
  case False
  then have "shown E w = []"
    by (intro shown_without_response) blast
  then show ?thesis by simp
qed

lemma str_mul_step: "0 < n \<Longrightarrow> str_mul s n = s @ str_mul s (n - 1)"
proof -
  assume "0 < n"
  then have "nat n = Suc (nat (n - 1))" by simp
  then show ?thesis by (simp add: str_mul_def)
qed

lemma repeat_loop_returns: "repeat_loop s n acc = Some (acc @ str_mul s n)"
proof (induction "nat n" arbitrary: n acc)
  case 0
  then have "n \<le> 0" by simp
  then show ?case by (subst repeat_loop.simps) (simp add: str_mul_def)
next
  case (Suc k)
  then have pos: "0 < n" and k: "k = nat (n - 1)" by simp_all
  from Suc.hyps(1) [OF k, of "acc @ s"] pos
  show ?case
    by (subst repeat_loop.simps) (simp add: str_mul_step [OF pos])
qed

lemma for_loop_returns:
  "i \<le> length ps \<Longrightarrow> for_loop E ps i w = Some (for_parts E (drop i ps) w)"
proof (induction "length ps - i" arbitrary: i w)
  case 0
  then have "i = length ps" by simp
  then show ?case by (subst for_loop.simps) simp
next
  case (Suc k)
  then have lt: "i < length ps" and k: "k = length ps - Suc i" by simp_all
  then have le: "Suc i \<le> length ps" by simp
  have d: "drop i ps = ps ! i # drop (Suc i) ps"
    using lt by (simp add: Cons_nth_drop_Suc)
  show ?case
    using Suc.hyps(1) [OF k le] lt
    by (subst for_loop.simps) (simp add: d split: prod.split sum.split)
qed

lemma run_monster_returns: "run_monster = Some monster"
  by (simp add: run_monster_def repeat_loop_returns monster_def side_wall_def up_stack_def
      down_stack_def)

lemma run_test_random_stuff_returns: "run_test_random_stuff w = Some (test_random_stuff w)"
  by (simp add: run_test_random_stuff_def run_monster_returns test_random_stuff_def
      and_then_def split: prod.split sum.split)

lemma run_testgeneration_returns: "run_testgeneration E w = Some (testgeneration E w)"
  by (simp add: run_testgeneration_def testgeneration_def and_then_def for_loop_returns
      split: prod.split sum.split)

text \<open>
  C8. Both scripts end on every run, given that each operation of the libraries returns or
  raises. With the repetitions and the \<open>for\<close> loop run as loops, where a loop that never
  ends has the value \<open>None\<close>, every run of either script has a result, the one the functions
  above compute: the counter of each repetition reaches zero and the index of the \<open>for\<close>
  loop reaches the length of the list of parts. The glyph script writes at most the 61 code
  points of \<open>monster\<close> and a newline; the image script makes at most one API call and its
  loop shows at most as many images as the response has parts.
\<close>

theorem both_scripts_terminate:
  "run_test_random_stuff w = Some (test_random_stuff w) \<and>
   run_testgeneration E w = Some (testgeneration E w) \<and>
   length (concat (printed w)) \<le> length monster + 1 \<and>
   length (called E w) \<le> 1 \<and>
   (\<forall>c r ps. new_client E = Inr c \<longrightarrow> generate_content E c model_name prompt = Inr r \<longrightarrow>
      parts r = Some ps \<longrightarrow> length (shown E w) \<le> length ps)"
proof (intro conjI allI impI)
  show "run_test_random_stuff w = Some (test_random_stuff w)"
    by (rule run_test_random_stuff_returns)
  show "run_testgeneration E w = Some (testgeneration E w)"
    by (rule run_testgeneration_returns)
  show "length (concat (printed w)) \<le> length monster + 1"
    using printed_cases [of w] by auto
  show "length (called E w) \<le> 1"
    by (simp add: called_run)
next
  fix c r ps
  assume "new_client E = Inr c" "generate_content E c model_name prompt = Inr r"
    "parts r = Some ps"
  then show "length (shown E w) \<le> length ps"
    by (rule shown_bound)
qed

theorem both_scripts_terminate_witness:
  "run_test_random_stuff posix_world \<noteq> None \<and>
   run_testgeneration banana_env posix_world \<noteq> None \<and>
   map_option fst (run_testgeneration banana_env posix_world) = Some (Inr ()) \<and>
   new_client banana_env = Inr Client \<and>
   generate_content banana_env Client model_name prompt =
     Inr \<lparr>parts = Some [text_part, image_part, empty_part]\<rparr> \<and>
   length (shown banana_env posix_world) \<le> 3 \<and>
   length (concat (printed posix_world)) \<le> 62"
proof -
  have env: "new_client banana_env = Inr Client"
    "generate_content banana_env Client model_name prompt =
       Inr \<lparr>parts = Some [text_part, image_part, empty_part]\<rparr>"
    by (simp_all add: banana_env_def)
  have "parts \<lparr>parts = Some [text_part, image_part, empty_part]\<rparr> =
      Some [text_part, image_part, empty_part]"
    by simp
  with both_scripts_terminate [of posix_world banana_env] env
  have "length (shown banana_env posix_world) \<le> length [text_part, image_part, empty_part]"
    and "length (concat (printed posix_world)) \<le> length monster + 1"
    and "run_test_random_stuff posix_world = Some (test_random_stuff posix_world)"
    and "run_testgeneration banana_env posix_world =
           Some (testgeneration banana_env posix_world)"
    by blast+
  with env banana_run show ?thesis
    by (simp add: monster_explicit)
qed

end
